theory Spec2Isabelle
  imports Main "HOL-Library.Word" "HOL-Library.Sublist"
begin

section \<open>JavaScript strings\<close>

text \<open>
  A JavaScript string is a finite sequence of UTF-16 code units. \<open>===\<close> on two strings
  compares the sequences, \<open>.length\<close> counts code units. String literals of the source
  are ASCII and are written \<open>js ''...''\<close>.
\<close>

type_synonym jsstring = "16 word list"

definition js :: "string \<Rightarrow> jsstring" where
  "js s = map (\<lambda>c. of_nat (of_char c)) s"

text \<open>
  \<open>String.prototype.trim\<close> strips the code points of WhiteSpace and LineTerminator
  from both ends. All of them lie in the basic plane, so each is one code unit.
\<close>

definition isWhiteSpace :: "16 word \<Rightarrow> bool" where
  "isWhiteSpace c =
     (c \<in> set [0x0009, 0x000A, 0x000B, 0x000C, 0x000D, 0x0020, 0x00A0, 0x1680,
                0x2028, 0x2029, 0x202F, 0x205F, 0x3000, 0xFEFF]
      \<or> (0x2000 \<le> c \<and> c \<le> 0x200A))"

definition trimStart :: "jsstring \<Rightarrow> jsstring" where
  "trimStart s = dropWhile isWhiteSpace s"

definition trimEnd :: "jsstring \<Rightarrow> jsstring" where
  "trimEnd s = rev (dropWhile isWhiteSpace (rev s))"

definition trim :: "jsstring \<Rightarrow> jsstring" where
  "trim s = trimEnd (trimStart s)"

text \<open>
  \<open>String.prototype.substring(start, end)\<close>: both indices are clamped to
  \<open>[0, length]\<close> and swapped when \<open>start > end\<close>; nothing is raised.
\<close>

definition substring :: "jsstring \<Rightarrow> int \<Rightarrow> int \<Rightarrow> jsstring" where
  "substring s start end' =
     (let len = int (length s);
          finalStart = min (max start 0) len;
          finalEnd = min (max end' 0) len;
          from = min finalStart finalEnd;
          to = max finalStart finalEnd
      in take (nat (to - from)) (drop (nat from) s))"

text \<open>
  \<open>String.prototype.includes(searchString)\<close> is \<open>StringIndexOf(S, searchString, 0)\<close>
  being found: the least \<open>i\<close> with \<open>fromIndex \<le> i \<le> len - searchLen\<close> at which the code
  units of \<open>S\<close> equal those of \<open>searchString\<close>; the empty string is found at
  \<open>fromIndex\<close>.
\<close>

definition StringIndexOf :: "jsstring \<Rightarrow> jsstring \<Rightarrow> nat \<Rightarrow> nat option" where
  "StringIndexOf s searchValue fromIndex =
     (let len = length s; searchLen = length searchValue
      in if searchValue = [] \<and> fromIndex \<le> len then Some fromIndex
         else if searchLen \<le> len
           then find (\<lambda>i. take searchLen (drop i s) = searchValue)
                  [fromIndex ..< Suc (len - searchLen)]
           else None)"

definition includes_str :: "jsstring \<Rightarrow> jsstring \<Rightarrow> bool" where
  "includes_str s searchString = (StringIndexOf s searchString 0 \<noteq> None)"


section \<open>The shared search state\<close>

record Service =
  id_str :: jsstring
  name :: jsstring

text \<open>The five values of \<open>ContextType\<close>; the setters are the writes of the model.\<close>

record ContextType =
  services :: "Service list"
  filteredServices :: "Service list"
  serviceSearchInputValue :: jsstring
  fakeSpanDomWidth :: jsstring
  suggestionInputPlaceholder :: jsstring

text \<open>The values \<open>useState\<close> is given in \<open>SearchServiceProvider\<close>.\<close>

definition initialContext :: ContextType where
  "initialContext =
     \<lparr>services = [], filteredServices = [], serviceSearchInputValue = js '''',
      fakeSpanDomWidth = js ''100%'', suggestionInputPlaceholder = js ''''\<rparr>"


section \<open>FeaturefulSearchInput\<close>

text \<open>
  \<open>filteredServices[0]?.name || ""\<close>: reading index 0 of an empty array gives
  \<open>undefined\<close>, and \<open>||\<close> replaces every falsy value (\<open>undefined\<close> and the empty
  string) by \<open>""\<close>.
\<close>

definition firstSearchItemText :: "ContextType \<Rightarrow> jsstring" where
  "firstSearchItemText st =
     (case filteredServices st of
        [] \<Rightarrow> js ''''
      | s # _ \<Rightarrow> if name s = [] then js '''' else name s)"

definition isInputValueSubstrinOfFirstSearchItem :: "ContextType \<Rightarrow> bool" where
  "isInputValueSubstrinOfFirstSearchItem st =
     (serviceSearchInputValue st =
        substring (firstSearchItemText st) 0 (int (length (serviceSearchInputValue st))))"

text \<open>The value the suggestion effect hands to the setter of the placeholder.\<close>

definition newPlaceholder :: "ContextType \<Rightarrow> jsstring" where
  "newPlaceholder st =
     (if isInputValueSubstrinOfFirstSearchItem st then firstSearchItemText st else js '''')"

definition shouldInputExpand :: "ContextType \<Rightarrow> bool" where
  "shouldInputExpand st =
     (fakeSpanDomWidth st = js ''0px'' \<or> length (suggestionInputPlaceholder st) = 0)"

text \<open>The \<open>style.width\<close> of the editable input.\<close>

definition inputWidth :: "ContextType \<Rightarrow> jsstring" where
  "inputWidth st = (if shouldInputExpand st then js ''100%'' else fakeSpanDomWidth st)"


section \<open>ServiceSearch\<close>

text \<open>
  The filter effect: \<open>results\<close> is computed from the untrimmed input value, and the
  trimmed value only chooses between \<open>results\<close> and the empty array.
\<close>

definition filterEffect :: "ContextType \<Rightarrow> ContextType" where
  "filterEffect st =
     (let results = filter (\<lambda>s. includes_str (name s) (serviceSearchInputValue st)) (services st)
      in if trim (serviceSearchInputValue st) \<noteq> js ''''
         then st\<lparr>filteredServices := results\<rparr>
         else st\<lparr>filteredServices := []\<rparr>)"


text \<open>
  The fetch effect. \<open>fetch(url).then(res => res.json().then(s => setServices(s)))\<close>
  has no rejection handler: the only write is \<open>setServices(s)\<close>, reached when both
  promises are fulfilled. The status of the response is not looked at.
\<close>

datatype fetch_outcome =
    FetchRejected
  | JsonRejected
  | JsonResolved "Service list"

definition fetchSettled :: "fetch_outcome \<Rightarrow> ContextType \<Rightarrow> ContextType" where
  "fetchSettled outcome st =
     (case outcome of
        FetchRejected \<Rightarrow> st
      | JsonRejected \<Rightarrow> st
      | JsonResolved s \<Rightarrow> st\<lparr>services := s\<rparr>)"

text \<open>
  \<open>useEffect(f, deps)\<close> runs \<open>f\<close> after the first render, and after a later render
  when some dependency differs from its value at the previous render. The dependency
  list of the fetch effect is \<open>[setServices]\<close>, a setter of \<open>useState\<close>, whose
  identity is the same at every render of a mounted component.
\<close>

datatype hook_ref = SetServices

definition useEffect_fires :: "'d list option \<Rightarrow> 'd list \<Rightarrow> bool" where
  "useEffect_fires prev deps = (case prev of None \<Rightarrow> True | Some p \<Rightarrow> p \<noteq> deps)"

record widget =
  ctx :: ContextType
  requests :: "jsstring list"
  fetchDeps :: "hook_ref list option"

definition fetchEffect :: "widget \<Rightarrow> widget" where
  "fetchEffect w =
     (let deps = [SetServices]
      in if useEffect_fires (fetchDeps w) deps
         then w\<lparr>requests := requests w @ [js ''/api/services?zoneId=1''],
                 fetchDeps := Some deps\<rparr>
         else w\<lparr>fetchDeps := Some deps\<rparr>)"

text \<open>
  The events of a mounted widget: a render for another reason, the settling of the
  request, and the writes of the other four setters. Every write is followed by a
  render, which runs the fetch effect when it fires.
\<close>

datatype event =
    Rerender
  | Settle fetch_outcome
  | SetFilteredServices "Service list"
  | SetServiceSearchInputValue jsstring
  | SetFakeSpanDomWidth jsstring
  | SetSuggestionInputPlaceholder jsstring

fun setState :: "event \<Rightarrow> ContextType \<Rightarrow> ContextType" where
  "setState Rerender st = st"
| "setState (Settle outcome) st = fetchSettled outcome st"
| "setState (SetFilteredServices v) st = st\<lparr>filteredServices := v\<rparr>"
| "setState (SetServiceSearchInputValue v) st = st\<lparr>serviceSearchInputValue := v\<rparr>"
| "setState (SetFakeSpanDomWidth v) st = st\<lparr>fakeSpanDomWidth := v\<rparr>"
| "setState (SetSuggestionInputPlaceholder v) st = st\<lparr>suggestionInputPlaceholder := v\<rparr>"

definition step :: "event \<Rightarrow> widget \<Rightarrow> widget" where
  "step e w = fetchEffect (w\<lparr>ctx := setState e (ctx w)\<rparr>)"

definition mount :: widget where
  "mount = fetchEffect \<lparr>ctx = initialContext, requests = [], fetchDeps = None\<rparr>"

definition run :: "event list \<Rightarrow> widget \<Rightarrow> widget" where
  "run es w = fold step es w"


section \<open>The rate-limiting gates\<close>

text \<open>
  Modelled from the spec: the rate-limiting gate, which the source obtains from
  \<open>_.throttle\<close> of lodash, a library that is not among the sources. By section 5 of
  the spec a gate has a leading and a trailing edge. A call that reaches an idle gate
  is delivered to the setter at once and opens a window of the gate's interval. A call
  inside an open window is not delivered; only the most recent such call is kept, the
  earlier ones are dropped and not queued. When the window has elapsed, the kept call
  is delivered at that moment and opens the next window; with no kept call the gate
  becomes idle. Times are in milliseconds, and \<open>delivered\<close> lists the writes to the
  underlying setter with their times, oldest first.
\<close>

record 'a gate =
  interval :: nat
  window :: "(nat \<times> 'a option) option"
  delivered :: "(nat \<times> 'a) list"

text \<open>
  \<open>window\<close> is \<open>None\<close> for an idle gate, and otherwise holds the time at which the
  open window began and the call kept in it, if any.
\<close>

definition newGate :: "nat \<Rightarrow> 'a gate" where
  "newGate n = \<lparr>interval = n, window = None, delivered = []\<rparr>"

text \<open>What the timer of the gate has done by the time \<open>t\<close>.\<close>

definition elapse :: "nat \<Rightarrow> 'a gate \<Rightarrow> 'a gate" where
  "elapse t g =
     (case window g of
        None \<Rightarrow> g
      | Some (s, kept) \<Rightarrow>
          if t < s + interval g then g
          else (case kept of
                  None \<Rightarrow> g\<lparr>window := None\<rparr>
                | Some v \<Rightarrow>
                    if t < s + 2 * interval g
                    then g\<lparr>window := Some (s + interval g, None),
                            delivered := delivered g @ [(s + interval g, v)]\<rparr>
                    else g\<lparr>window := None,
                            delivered := delivered g @ [(s + interval g, v)]\<rparr>))"

text \<open>A call of the gated setter at the time \<open>t\<close> with the value \<open>v\<close>.\<close>

definition call :: "nat \<Rightarrow> 'a \<Rightarrow> 'a gate \<Rightarrow> 'a gate" where
  "call t v g =
     (let g' = elapse t g
      in case window g' of
           None \<Rightarrow> g'\<lparr>window := Some (t, None), delivered := delivered g' @ [(t, v)]\<rparr>
         | Some (s, kept) \<Rightarrow> g'\<lparr>window := Some (s, Some v)\<rparr>)"

definition calls :: "(nat \<times> 'a) list \<Rightarrow> 'a gate \<Rightarrow> 'a gate" where
  "calls cs g = fold (\<lambda>c. call (fst c) (snd c)) cs g"

text \<open>The gate once its open window has elapsed with no further call.\<close>

definition settle :: "'a gate \<Rightarrow> 'a gate" where
  "settle g =
     (case window g of
        None \<Rightarrow> g
      | Some (s, None) \<Rightarrow> g\<lparr>window := None\<rparr>
      | Some (s, Some v) \<Rightarrow>
          g\<lparr>window := None, delivered := delivered g @ [(s + interval g, v)]\<rparr>)"

text \<open>
  The three gates of the source, with the intervals it passes: \<open>_.throttle(..., 120)\<close>
  in \<open>FakeSpan\<close> and for the input value, \<open>_.throttle(..., 500)\<close> for the suggestion.
\<close>

definition throttledSetFakeSpanDomWidth :: "jsstring gate" where
  "throttledSetFakeSpanDomWidth = newGate 120"

definition throttledSetServiceSearchInputValue :: "jsstring gate" where
  "throttledSetServiceSearchInputValue = newGate 120"

definition throttledSetSuggestionInputPlaceholder :: "jsstring gate" where
  "throttledSetSuggestionInputPlaceholder = newGate 500"

text \<open>
  The suggestion effect calls its gate with \<open>newPlaceholder\<close>; the deliveries of the
  gate are the writes of \<open>setSuggestionInputPlaceholder\<close>, applied in order.
\<close>

definition suggestionEffect :: "nat \<Rightarrow> ContextType \<Rightarrow> jsstring gate \<Rightarrow> jsstring gate" where
  "suggestionEffect t st g = call t (newPlaceholder st) g"

definition committed :: "jsstring gate \<Rightarrow> ContextType \<Rightarrow> ContextType" where
  "committed g st = fold (\<lambda>d s. s\<lparr>suggestionInputPlaceholder := snd d\<rparr>) (delivered g) st"


section \<open>Example states\<close>

definition haircut :: Service where
  "haircut = \<lparr>id_str = js ''1'', name = js ''Haircut''\<rparr>"

definition hairdye :: Service where
  "hairdye = \<lparr>id_str = js ''2'', name = js ''Hairdye''\<rparr>"

definition myHaircut :: Service where
  "myHaircut = \<lparr>id_str = js ''3'', name = js ''My Haircut''\<rparr>"

text \<open>A state with the given query, item list, filtered list, width and suggestion.\<close>

definition stateOf ::
  "string \<Rightarrow> Service list \<Rightarrow> Service list \<Rightarrow> string \<Rightarrow> string \<Rightarrow> ContextType" where
  "stateOf q l f w s =
     \<lparr>services = l, filteredServices = f, serviceSearchInputValue = js q,
      fakeSpanDomWidth = js w, suggestionInputPlaceholder = js s\<rparr>"


section \<open>Platform lemmas\<close>

lemma js_Nil [simp]: "js '''' = []"
  by (simp add: js_def)

lemma substring_0_length: "substring s 0 (int n) = take n s"
  by (simp add: substring_def Let_def min_def)

lemma eq_take_iff_prefix: "q = take (length q) f \<longleftrightarrow> prefix q f"
proof
  assume "q = take (length q) f"
  then have "prefix q f \<longleftrightarrow> prefix (take (length q) f) f" by simp
  then show "prefix q f" by (simp add: take_is_prefix)
next
  assume "prefix q f"
  then obtain r where "f = q @ r" by (auto simp: prefix_def)
  then show "q = take (length q) f" by simp
qed

lemma StringIndexOf_found:
  "StringIndexOf s q 0 \<noteq> None \<longleftrightarrow>
     (\<exists>i. i + length q \<le> length s \<and> take (length q) (drop i s) = q)"
proof (cases "q = []")
  case True
  then show ?thesis by (auto simp: StringIndexOf_def)
next
  case False
  show ?thesis
  proof (cases "length q \<le> length s")
    case True
    have mem: "i \<in> set [0 ..< Suc (length s - length q)] \<longleftrightarrow> i + length q \<le> length s" for i
      using True by auto
    have "StringIndexOf s q 0 =
            find (\<lambda>i. take (length q) (drop i s) = q) [0 ..< Suc (length s - length q)]"
      using False True by (simp add: StringIndexOf_def Let_def del: upt_Suc)
    then have "StringIndexOf s q 0 \<noteq> None \<longleftrightarrow>
          (\<exists>i. i \<in> set [0 ..< Suc (length s - length q)] \<and> take (length q) (drop i s) = q)"
      by (simp only: find_None_iff not_not)
    then show ?thesis
      by (simp only: mem)
  next
    case False
    then show ?thesis using \<open>q \<noteq> []\<close> by (auto simp: StringIndexOf_def Let_def)
  qed
qed

lemma includes_sublist: "includes_str s q \<longleftrightarrow> sublist q s"
proof
  assume "includes_str s q"
  then have "\<exists>i. i + length q \<le> length s \<and> take (length q) (drop i s) = q"
    unfolding includes_str_def StringIndexOf_found .
  then obtain i where "take (length q) (drop i s) = q"
    by blast
  then have "s = take i s @ q @ drop (length q) (drop i s)"
    by (metis append_take_drop_id)
  then show "sublist q s" unfolding sublist_def by blast
next
  assume "sublist q s"
  then obtain ps ss where s: "s = ps @ q @ ss" by (auto simp: sublist_def)
  then have "length ps + length q \<le> length s \<and> take (length q) (drop (length ps) s) = q"
    by simp
  then show "includes_str s q"
    unfolding includes_str_def StringIndexOf_found by blast
qed


section \<open>Lemmas on the components\<close>

lemma firstSearchItemText_Nil: "filteredServices st = [] \<Longrightarrow> firstSearchItemText st = []"
  by (simp add: firstSearchItemText_def)

lemma firstSearchItemText_Cons:
  "filteredServices st = s # rest \<Longrightarrow> firstSearchItemText st = name s"
  by (simp add: firstSearchItemText_def)

lemma isInputValueSubstrin_take:
  "isInputValueSubstrinOfFirstSearchItem st \<longleftrightarrow>
     serviceSearchInputValue st =
       take (length (serviceSearchInputValue st)) (firstSearchItemText st)"
  by (simp add: isInputValueSubstrinOfFirstSearchItem_def substring_0_length)

lemma isInputValueSubstrin_prefix:
  "isInputValueSubstrinOfFirstSearchItem st \<longleftrightarrow>
     prefix (serviceSearchInputValue st) (firstSearchItemText st)"
  by (simp only: isInputValueSubstrin_take eq_take_iff_prefix)

lemma filterEffect_query [simp]:
  "serviceSearchInputValue (filterEffect st) = serviceSearchInputValue st"
  by (simp add: filterEffect_def Let_def)

lemma filterEffect_filtered:
  "filteredServices (filterEffect st) =
     (if trim (serviceSearchInputValue st) = [] then []
      else filter (\<lambda>s. sublist (serviceSearchInputValue st) (name s)) (services st))"
  by (simp add: filterEffect_def Let_def includes_sublist)


section \<open>The width of the editable input\<close>

text \<open>
  C1. The spec has the input fill the container whenever the measured width is the
  unmeasured sentinel \<open>100%\<close> or the suggestion is empty, and take the measured width
  otherwise. The source tests the measured width against \<open>0px\<close>. With a measured
  width of \<open>0px\<close> and a suggestion, the rendered width is \<open>100%\<close>, not the measured
  width.
\<close>

theorem inputWidth_sentinel_counterexample:
  "fakeSpanDomWidth (stateOf ''H'' [haircut, hairdye] [haircut, hairdye] ''0px'' ''Haircut'')
     \<noteq> js ''100%''
   \<and> suggestionInputPlaceholder
        (stateOf ''H'' [haircut, hairdye] [haircut, hairdye] ''0px'' ''Haircut'') \<noteq> js ''''
   \<and> inputWidth (stateOf ''H'' [haircut, hairdye] [haircut, hairdye] ''0px'' ''Haircut'')
       \<noteq> fakeSpanDomWidth
            (stateOf ''H'' [haircut, hairdye] [haircut, hairdye] ''0px'' ''Haircut'')"
  by (simp add: stateOf_def inputWidth_def shouldInputExpand_def js_def)

text \<open>
  C1, as amended. In every state the rendered width is \<open>100%\<close> when the measured width
  is the sentinel \<open>100%\<close> or the suggestion is empty; it is \<open>100%\<close> as well when the
  measured width is \<open>0px\<close>; in every other state it is the measured width.
\<close>

theorem inputWidth_sentinel_or_blank:
  "(fakeSpanDomWidth st = js ''100%'' \<or> suggestionInputPlaceholder st = js ''''
      \<longrightarrow> inputWidth st = js ''100%'')
   \<and> (fakeSpanDomWidth st \<noteq> js ''100%'' \<and> suggestionInputPlaceholder st \<noteq> js ''''
        \<and> fakeSpanDomWidth st \<noteq> js ''0px'' \<longrightarrow> inputWidth st = fakeSpanDomWidth st)
   \<and> (fakeSpanDomWidth st = js ''0px'' \<longrightarrow> inputWidth st = js ''100%'')"
  by (simp add: inputWidth_def shouldInputExpand_def)

theorem inputWidth_sentinel_or_blank_witness:
  "fakeSpanDomWidth
     (stateOf ''Hair'' [haircut, hairdye] [haircut, hairdye] ''100%'' ''Haircut'') = js ''100%''
   \<and> inputWidth
        (stateOf ''Hair'' [haircut, hairdye] [haircut, hairdye] ''100%'' ''Haircut'') = js ''100%''
   \<and> suggestionInputPlaceholder (stateOf ''Dye'' [haircut, hairdye] [] ''24px'' '''') = js ''''
   \<and> inputWidth (stateOf ''Dye'' [haircut, hairdye] [] ''24px'' '''') = js ''100%''
   \<and> js ''42px'' \<noteq> js ''100%'' \<and> js ''Haircut'' \<noteq> js '''' \<and> js ''42px'' \<noteq> js ''0px''
   \<and> inputWidth
        (stateOf ''Hair'' [haircut, hairdye] [haircut, hairdye] ''42px'' ''Haircut'') = js ''42px''
   \<and> inputWidth (stateOf '''' [haircut, hairdye] [] ''0px'' ''Haircut'') = js ''100%''"
  using inputWidth_sentinel_or_blank
          [of "stateOf ''Hair'' [haircut, hairdye] [haircut, hairdye] ''100%'' ''Haircut''"]
        inputWidth_sentinel_or_blank [of "stateOf ''Dye'' [haircut, hairdye] [] ''24px'' ''''"]
        inputWidth_sentinel_or_blank
          [of "stateOf ''Hair'' [haircut, hairdye] [haircut, hairdye] ''42px'' ''Haircut''"]
        inputWidth_sentinel_or_blank [of "stateOf '''' [haircut, hairdye] [] ''0px'' ''Haircut''"]
  by (simp add: stateOf_def js_def)

text \<open>
  C9. The expand decision compares the measured width with \<open>0px\<close>, not with the
  sentinel \<open>100%\<close>: in every state the input expands exactly when the measured width
  is \<open>0px\<close> or the suggestion is empty; the rendered width is \<open>100%\<close> in that case
  and the measured width otherwise. So the rendered width is never \<open>0px\<close>.
\<close>

theorem shouldInputExpand_0px:
  "(shouldInputExpand st \<longleftrightarrow>
      fakeSpanDomWidth st = js ''0px'' \<or> suggestionInputPlaceholder st = js '''')
   \<and> inputWidth st =
       (if fakeSpanDomWidth st = js ''0px'' \<or> suggestionInputPlaceholder st = js ''''
        then js ''100%'' else fakeSpanDomWidth st)
   \<and> inputWidth st \<noteq> js ''0px''"
proof -
  have ne: "js ''100%'' \<noteq> js ''0px''" by (simp add: js_def)
  show ?thesis
    using ne by (auto simp: inputWidth_def shouldInputExpand_def)
qed

theorem shouldInputExpand_0px_witness:
  "shouldInputExpand (stateOf '''' [haircut, hairdye] [] ''0px'' ''Haircut'')
   \<and> inputWidth (stateOf '''' [haircut, hairdye] [] ''0px'' ''Haircut'') = js ''100%''
   \<and> \<not> shouldInputExpand
          (stateOf ''Hair'' [haircut, hairdye] [haircut, hairdye] ''42px'' ''Haircut'')
   \<and> inputWidth
        (stateOf ''Hair'' [haircut, hairdye] [haircut, hairdye] ''42px'' ''Haircut'') = js ''42px''"
  using shouldInputExpand_0px [of "stateOf '''' [haircut, hairdye] [] ''0px'' ''Haircut''"]
        shouldInputExpand_0px
          [of "stateOf ''Hair'' [haircut, hairdye] [haircut, hairdye] ''42px'' ''Haircut''"]
  by (simp add: stateOf_def js_def)


section \<open>The derived suggestion\<close>

text \<open>
  C2. With \<open>firstName\<close> the name of the first filtered item, or \<open>""\<close> when there is
  none, the derived suggestion is \<open>firstName\<close> when the query equals the leading
  substring of \<open>firstName\<close> of the query's length, that is, when the query is a literal
  prefix of \<open>firstName\<close>, and \<open>""\<close> otherwise.
\<close>

theorem newPlaceholder_firstName:
  "(filteredServices st = [] \<longrightarrow> firstSearchItemText st = js '''')
   \<and> (\<forall>s rest. filteredServices st = s # rest \<longrightarrow> firstSearchItemText st = name s)
   \<and> (isInputValueSubstrinOfFirstSearchItem st \<longleftrightarrow>
        serviceSearchInputValue st =
          take (length (serviceSearchInputValue st)) (firstSearchItemText st))
   \<and> (isInputValueSubstrinOfFirstSearchItem st \<longleftrightarrow>
        prefix (serviceSearchInputValue st) (firstSearchItemText st))
   \<and> (prefix (serviceSearchInputValue st) (firstSearchItemText st)
        \<longrightarrow> newPlaceholder st = firstSearchItemText st)
   \<and> (\<not> prefix (serviceSearchInputValue st) (firstSearchItemText st)
        \<longrightarrow> newPlaceholder st = js '''')"
proof -
  have a: "filteredServices st = [] \<longrightarrow> firstSearchItemText st = js ''''"
    by (simp add: firstSearchItemText_Nil)
  have b: "\<forall>s rest. filteredServices st = s # rest \<longrightarrow> firstSearchItemText st = name s"
    by (simp add: firstSearchItemText_Cons)
  have c: "prefix (serviceSearchInputValue st) (firstSearchItemText st)
             \<longrightarrow> newPlaceholder st = firstSearchItemText st"
    by (simp add: newPlaceholder_def isInputValueSubstrin_prefix)
  have d: "\<not> prefix (serviceSearchInputValue st) (firstSearchItemText st)
             \<longrightarrow> newPlaceholder st = js ''''"
    by (simp add: newPlaceholder_def isInputValueSubstrin_prefix)
  from a b c d isInputValueSubstrin_take [of st] isInputValueSubstrin_prefix [of st]
  show ?thesis by blast
qed

theorem newPlaceholder_firstName_witness:
  "filteredServices (stateOf ''Hair'' [haircut, hairdye] [haircut, hairdye] ''42px'' '''')
     = haircut # [hairdye]
   \<and> prefix (js ''Hair'') (name haircut)
   \<and> newPlaceholder (stateOf ''Hair'' [haircut, hairdye] [haircut, hairdye] ''42px'' '''')
       = js ''Haircut''
   \<and> \<not> prefix (js ''air'') (name haircut)
   \<and> newPlaceholder (stateOf ''air'' [haircut, hairdye] [haircut, hairdye] ''42px'' '''')
       = js ''''
   \<and> filteredServices (stateOf ''Dye'' [haircut, hairdye] [] ''42px'' '''') = []
   \<and> newPlaceholder (stateOf ''Dye'' [haircut, hairdye] [] ''42px'' '''') = js ''''"
  using newPlaceholder_firstName
          [of "stateOf ''Hair'' [haircut, hairdye] [haircut, hairdye] ''42px'' ''''"]
        newPlaceholder_firstName
          [of "stateOf ''air'' [haircut, hairdye] [haircut, hairdye] ''42px'' ''''"]
        newPlaceholder_firstName [of "stateOf ''Dye'' [haircut, hairdye] [] ''42px'' ''''"]
  by (simp add: stateOf_def haircut_def js_def)

text \<open>
  C8. When the query is the empty string the prefix test succeeds, and the derived
  suggestion is the first filtered item's name: with a non-empty filtered list it is
  that item's full name.
\<close>

theorem newPlaceholder_empty_query:
  "serviceSearchInputValue st = js '''' \<Longrightarrow>
     isInputValueSubstrinOfFirstSearchItem st
     \<and> newPlaceholder st = firstSearchItemText st
     \<and> (\<forall>s rest. filteredServices st = s # rest \<longrightarrow> newPlaceholder st = name s)"
  by (simp add: newPlaceholder_def isInputValueSubstrin_prefix firstSearchItemText_Cons)

theorem newPlaceholder_empty_query_witness:
  "serviceSearchInputValue (stateOf '''' [haircut, hairdye] [haircut, hairdye] ''0px'' '''')
     = js ''''
   \<and> filteredServices (stateOf '''' [haircut, hairdye] [haircut, hairdye] ''0px'' '''')
       = haircut # [hairdye]
   \<and> isInputValueSubstrinOfFirstSearchItem
        (stateOf '''' [haircut, hairdye] [haircut, hairdye] ''0px'' '''')
   \<and> newPlaceholder (stateOf '''' [haircut, hairdye] [haircut, hairdye] ''0px'' '''')
       = js ''Haircut''
   \<and> js ''Haircut'' \<noteq> js ''''"
  using newPlaceholder_empty_query
          [of "stateOf '''' [haircut, hairdye] [haircut, hairdye] ''0px'' ''''"]
  by (simp add: stateOf_def haircut_def js_def firstSearchItemText_def)


section \<open>The filtered list\<close>

text \<open>
  C4. For a query that is not blank after trimming, the filtered list holds exactly
  the items whose name contains the query as a contiguous run of code units (so the
  match is case-sensitive), in the order they have in the item list.
\<close>

theorem filterEffect_nonblank:
  "trim (serviceSearchInputValue st) \<noteq> js '''' \<Longrightarrow>
     filteredServices (filterEffect st) =
       filter (\<lambda>s. sublist (serviceSearchInputValue st) (name s)) (services st)
     \<and> set (filteredServices (filterEffect st)) =
         {s \<in> set (services st). sublist (serviceSearchInputValue st) (name s)}
     \<and> subseq (filteredServices (filterEffect st)) (services st)"
  by (simp add: filterEffect_filtered)

theorem filterEffect_nonblank_witness:
  "trim (js ''Hair'') \<noteq> js ''''
   \<and> filteredServices (filterEffect (stateOf ''Hair'' [haircut, hairdye] [] ''0px'' ''''))
       = [haircut, hairdye]
   \<and> trim (js ''dye'') \<noteq> js ''''
   \<and> filteredServices (filterEffect (stateOf ''dye'' [haircut, hairdye] [] ''0px'' ''''))
       = [hairdye]
   \<and> trim (js ''Dye'') \<noteq> js ''''
   \<and> filteredServices (filterEffect (stateOf ''Dye'' [haircut, hairdye] [] ''0px'' ''''))
       = []"
  using filterEffect_nonblank [of "stateOf ''Hair'' [haircut, hairdye] [] ''0px'' ''''"]
        filterEffect_nonblank [of "stateOf ''dye'' [haircut, hairdye] [] ''0px'' ''''"]
        filterEffect_nonblank [of "stateOf ''Dye'' [haircut, hairdye] [] ''0px'' ''''"]
  by (simp add: stateOf_def haircut_def hairdye_def js_def
        trim_def trimStart_def trimEnd_def isWhiteSpace_def
        sublist_Cons_right)

text \<open>
  C5. For a query that is blank after trimming, the filtered list is empty, whatever
  the item list holds.
\<close>

theorem filterEffect_blank:
  "trim (serviceSearchInputValue st) = js '''' \<Longrightarrow> filteredServices (filterEffect st) = []"
  by (simp add: filterEffect_filtered)

theorem filterEffect_blank_witness:
  "trim (serviceSearchInputValue (stateOf '''' [haircut, hairdye] [haircut] ''0px'' '''')) = js ''''
   \<and> filteredServices (filterEffect (stateOf '''' [haircut, hairdye] [haircut] ''0px'' '''')) = []
   \<and> trim (serviceSearchInputValue
             (stateOf ''  '' [haircut, hairdye, myHaircut] [myHaircut] ''8px'' '''')) = js ''''
   \<and> filteredServices
        (filterEffect (stateOf ''  '' [haircut, hairdye, myHaircut] [myHaircut] ''8px'' '''')) = []
   \<and> trim [0x0009, 0x00A0, 0x3000, 0x000A] = js ''''
   \<and> filteredServices
        (filterEffect
           \<lparr>services = [haircut], filteredServices = [haircut],
            serviceSearchInputValue = [0x0009, 0x00A0, 0x3000, 0x000A],
            fakeSpanDomWidth = js ''8px'', suggestionInputPlaceholder = js ''''\<rparr>) = []"
  using filterEffect_blank [of "stateOf '''' [haircut, hairdye] [haircut] ''0px'' ''''"]
        filterEffect_blank
          [of "stateOf ''  '' [haircut, hairdye, myHaircut] [myHaircut] ''8px'' ''''"]
        filterEffect_blank
          [of "\<lparr>services = [haircut], filteredServices = [haircut],
            serviceSearchInputValue = [0x0009, 0x00A0, 0x3000, 0x000A],
            fakeSpanDomWidth = js ''8px'', suggestionInputPlaceholder = js ''''\<rparr>"]
  by (simp add: stateOf_def js_def trim_def trimStart_def trimEnd_def isWhiteSpace_def)

text \<open>
  C10. For a query that is not blank after trimming but has white space at an end (so
  that trimming changes it), the filter keeps an item if and only if its name contains
  the untrimmed query: the predicate is given the query as typed, and the trimmed
  query only decides whether the list is emptied.
\<close>

theorem filterEffect_untrimmed:
  "trim (serviceSearchInputValue st) \<noteq> js '''' \<Longrightarrow>
   trim (serviceSearchInputValue st) \<noteq> serviceSearchInputValue st \<Longrightarrow>
     (s \<in> set (filteredServices (filterEffect st)) \<longleftrightarrow>
        s \<in> set (services st) \<and> sublist (serviceSearchInputValue st) (name s))
     \<and> filteredServices (filterEffect st) =
         filter (\<lambda>s. includes_str (name s) (serviceSearchInputValue st)) (services st)"
  by (simp add: filterEffect_def Let_def includes_sublist)

theorem filterEffect_untrimmed_witness:
  "trim (js '' Hair'') = js ''Hair'' \<and> js ''Hair'' \<noteq> js '''' \<and> js ''Hair'' \<noteq> js '' Hair''
   \<and> filteredServices
        (filterEffect (stateOf '' Hair'' [haircut, myHaircut] [] ''30px'' '''')) = [myHaircut]
   \<and> haircut \<notin> set (filteredServices
        (filterEffect (stateOf '' Hair'' [haircut, myHaircut] [] ''30px'' '''')))
   \<and> filter (\<lambda>s. includes_str (name s) (trim (js '' Hair''))) [haircut, myHaircut]
       = [haircut, myHaircut]"
  using filterEffect_untrimmed
          [of "stateOf '' Hair'' [haircut, myHaircut] [] ''30px'' ''''" haircut]
  by (simp add: stateOf_def haircut_def myHaircut_def js_def
        trim_def trimStart_def trimEnd_def isWhiteSpace_def
        includes_str_def StringIndexOf_def)


section \<open>The fetch of the item list\<close>

lemma ctx_fetchEffect [simp]: "ctx (fetchEffect w) = ctx w"
  by (simp add: fetchEffect_def Let_def)

lemma fetchDeps_fetchEffect [simp]: "fetchDeps (fetchEffect w) = Some [SetServices]"
  by (simp add: fetchEffect_def Let_def)

lemma requests_fetchEffect_mounted:
  "fetchDeps w = Some [SetServices] \<Longrightarrow> requests (fetchEffect w) = requests w"
  by (simp add: fetchEffect_def Let_def useEffect_fires_def)

lemma step_mounted:
  "fetchDeps w = Some [SetServices] \<Longrightarrow>
     fetchDeps (step e w) = Some [SetServices] \<and> requests (step e w) = requests w"
  by (simp add: step_def requests_fetchEffect_mounted)

lemma run_mounted:
  "fetchDeps w = Some [SetServices] \<Longrightarrow>
     fetchDeps (run es w) = Some [SetServices] \<and> requests (run es w) = requests w"
proof (induction es arbitrary: w)
  case Nil
  then show ?case by (simp add: run_def)
next
  case (Cons e es)
  from Cons.prems have s: "fetchDeps (step e w) = Some [SetServices]"
    and r: "requests (step e w) = requests w"
    by (simp_all add: step_mounted)
  have "run (e # es) w = run es (step e w)" by (simp add: run_def)
  with Cons.IH [OF s] r show ?case by simp
qed

lemma mount_requests: "requests mount = [js ''/api/services?zoneId=1'']"
  by (simp add: mount_def fetchEffect_def Let_def useEffect_fires_def)

lemma mount_fetchDeps: "fetchDeps mount = Some [SetServices]"
  by (simp add: mount_def)

text \<open>
  C7. Mounting issues one request. No later render, write or settling issues another,
  so there is no retry. When both promises are fulfilled the item list becomes the
  response, whatever it was before. When the request or the reading of its body is
  rejected, no field of the state changes: the item list keeps its value, which is
  empty after mounting, and nothing records the failure.
\<close>

theorem fetch_once:
  "requests mount = [js ''/api/services?zoneId=1'']
   \<and> services (ctx mount) = []
   \<and> requests (run es mount) = [js ''/api/services?zoneId=1'']
   \<and> services (ctx (step (Settle (JsonResolved s)) w)) = s
   \<and> ctx (step (Settle FetchRejected) w) = ctx w
   \<and> ctx (step (Settle JsonRejected) w) = ctx w
   \<and> requests (step (Settle FetchRejected) (run es mount)) = requests (run es mount)
   \<and> requests (step (Settle JsonRejected) (run es mount)) = requests (run es mount)"
proof -
  have m: "fetchDeps (run es mount) = Some [SetServices]"
    using run_mounted [OF mount_fetchDeps] by simp
  have a: "requests (run es mount) = [js ''/api/services?zoneId=1'']"
    using run_mounted [OF mount_fetchDeps] mount_requests by simp
  have b: "services (ctx mount) = []"
    by (simp add: mount_def initialContext_def)
  have c: "services (ctx (step (Settle (JsonResolved s)) w)) = s"
    by (simp add: step_def fetchSettled_def)
  have d: "ctx (step (Settle FetchRejected) w) = ctx w"
    "ctx (step (Settle JsonRejected) w) = ctx w"
    by (simp_all add: step_def fetchSettled_def)
  have e: "requests (step ev (run es mount)) = requests (run es mount)" for ev
    using step_mounted [OF m] by simp
  from mount_requests a b c d e show ?thesis by simp
qed

theorem fetch_once_witness:
  "requests
     (run [SetServiceSearchInputValue (js ''H''), Settle FetchRejected, Rerender,
           SetFakeSpanDomWidth (js ''9px'')] mount) = [js ''/api/services?zoneId=1'']
   \<and> services (ctx (step (Settle (JsonResolved [haircut, hairdye])) mount)) = [haircut, hairdye]
   \<and> services (ctx (step (Settle FetchRejected) mount)) = []
   \<and> services (ctx (step (Settle JsonRejected)
        (step (Settle (JsonResolved [haircut, hairdye])) mount))) = [haircut, hairdye]"
  using fetch_once [of "[SetServiceSearchInputValue (js ''H''), Settle FetchRejected, Rerender,
           SetFakeSpanDomWidth (js ''9px'')]" "[haircut, hairdye]" mount]
        fetch_once [of "[]" "[haircut, hairdye]"
           "step (Settle (JsonResolved [haircut, hairdye])) mount"]
  by simp


section \<open>The rate-limiting gates: one window of calls\<close>

lemma call_idle:
  "window g = None \<Longrightarrow>
     call t v g = g\<lparr>window := Some (t, None), delivered := delivered g @ [(t, v)]\<rparr>"
  by (simp add: call_def elapse_def)

lemma call_in_window:
  "window g = Some (s, kept) \<Longrightarrow> t < s + interval g \<Longrightarrow>
     call t v g = g\<lparr>window := Some (s, Some v)\<rparr>"
  by (simp add: call_def elapse_def)

lemma calls_in_window:
  "window g = Some (s, kept) \<Longrightarrow> \<forall>c\<in>set cs. fst c < s + interval g \<Longrightarrow>
     calls cs g = (if cs = [] then g else g\<lparr>window := Some (s, Some (snd (last cs)))\<rparr>)"
proof (induction cs arbitrary: g kept)
  case Nil
  then show ?case by (simp add: calls_def)
next
  case (Cons c cs)
  let ?g = "g\<lparr>window := Some (s, Some (snd c))\<rparr>"
  have step: "call (fst c) (snd c) g = ?g"
    using Cons.prems by (simp add: call_in_window)
  have unfold: "calls (c # cs) g = calls cs ?g"
    using step by (simp add: calls_def)
  have "calls cs ?g = (if cs = [] then ?g else ?g\<lparr>window := Some (s, Some (snd (last cs)))\<rparr>)"
    using Cons.prems by (intro Cons.IH [where kept = "Some (snd c)"]) simp_all
  with unfold show ?case by simp
qed

lemma delivered_window:
  assumes "window g = None"
    and "\<forall>c\<in>set rest. fst c < t0 + interval g"
  shows "delivered (calls ((t0, v0) # rest) g) = delivered g @ [(t0, v0)]"
    and "delivered (settle (calls ((t0, v0) # rest) g)) =
           delivered g @ (if rest = [] then [(t0, v0)]
                          else [(t0, v0), (t0 + interval g, snd (last rest))])"
proof -
  let ?g1 = "g\<lparr>window := Some (t0, None), delivered := delivered g @ [(t0, v0)]\<rparr>"
  have c1: "calls ((t0, v0) # rest) g = calls rest ?g1"
    using assms(1) by (simp add: calls_def call_idle)
  have c2: "calls rest ?g1 =
      (if rest = [] then ?g1 else ?g1\<lparr>window := Some (t0, Some (snd (last rest)))\<rparr>)"
    using assms(2) by (intro calls_in_window [where kept = None]) simp_all
  show "delivered (calls ((t0, v0) # rest) g) = delivered g @ [(t0, v0)]"
    by (simp add: c1 c2)
  show "delivered (settle (calls ((t0, v0) # rest) g)) =
           delivered g @ (if rest = [] then [(t0, v0)]
                          else [(t0, v0), (t0 + interval g, snd (last rest))])"
    by (simp add: c1 c2 settle_def)
qed

lemma gate_intervals:
  "interval throttledSetFakeSpanDomWidth = 120"
  "interval throttledSetServiceSearchInputValue = 120"
  "interval throttledSetSuggestionInputPlaceholder = 500"
  by (simp_all add: throttledSetFakeSpanDomWidth_def throttledSetServiceSearchInputValue_def
        throttledSetSuggestionInputPlaceholder_def newGate_def)

lemma gates_fresh:
  "g \<in> {throttledSetFakeSpanDomWidth, throttledSetServiceSearchInputValue,
         throttledSetSuggestionInputPlaceholder} \<Longrightarrow>
     window g = None \<and> delivered g = [] \<and> 0 < interval g"
  by (auto simp: throttledSetFakeSpanDomWidth_def throttledSetServiceSearchInputValue_def
        throttledSetSuggestionInputPlaceholder_def newGate_def)

lemma one_write_per_interval:
  "0 < (n::nat) \<Longrightarrow>
     length (filter (\<lambda>d. a \<le> fst d \<and> fst d < a + n) [(t0, v0), (t0 + n, v1)]) \<le> Suc 0"
  by auto

text \<open>
  C6. For each of the three gates (120 ms for the width and for the query, 500 ms for
  the suggestion) and calls that all arrive inside one window, that is, less than the
  gate's interval after the first of them: while the window is open the only write is
  the first call's; once the window has elapsed the writes are the first call's at its
  own time and, when there were more calls, the last call's at the end of the window.
  So no period of the interval's length holds more than one write, and the last value
  written is the value of the last call.
\<close>

theorem throttled_window:
  "g \<in> {throttledSetFakeSpanDomWidth, throttledSetServiceSearchInputValue,
         throttledSetSuggestionInputPlaceholder} \<Longrightarrow>
   sorted (map fst ((t0, v0) # rest)) \<Longrightarrow>
   \<forall>c\<in>set rest. fst c < t0 + interval g \<Longrightarrow>
     interval throttledSetFakeSpanDomWidth = 120
     \<and> interval throttledSetServiceSearchInputValue = 120
     \<and> interval throttledSetSuggestionInputPlaceholder = 500
     \<and> delivered (calls ((t0, v0) # rest) g) = [(t0, v0)]
     \<and> delivered (settle (calls ((t0, v0) # rest) g)) =
         (if rest = [] then [(t0, v0)] else [(t0, v0), (t0 + interval g, snd (last rest))])
     \<and> length (filter (\<lambda>d. a \<le> fst d \<and> fst d < a + interval g)
                 (delivered (settle (calls ((t0, v0) # rest) g)))) \<le> 1
     \<and> snd (last (delivered (settle (calls ((t0, v0) # rest) g))))
         = snd (last ((t0, v0) # rest))"
proof -
  assume g: "g \<in> {throttledSetFakeSpanDomWidth, throttledSetServiceSearchInputValue,
         throttledSetSuggestionInputPlaceholder}"
    and w: "\<forall>c\<in>set rest. fst c < t0 + interval g"
  from gates_fresh [OF g] have idle: "window g = None"
    and nd: "delivered g = []" and pos: "0 < interval g"
    by simp_all
  have d1: "delivered (calls ((t0, v0) # rest) g) = [(t0, v0)]"
    using delivered_window(1) [OF idle w] nd by simp
  have d2: "delivered (settle (calls ((t0, v0) # rest) g)) =
         (if rest = [] then [(t0, v0)] else [(t0, v0), (t0 + interval g, snd (last rest))])"
    using delivered_window(2) [OF idle w] nd by simp
  have d3: "length (filter (\<lambda>d. a \<le> fst d \<and> fst d < a + interval g)
                 (delivered (settle (calls ((t0, v0) # rest) g)))) \<le> 1"
    unfolding d2
    using one_write_per_interval [OF pos, of a t0 v0 "snd (last rest)"] by simp
  have d4: "snd (last (delivered (settle (calls ((t0, v0) # rest) g))))
         = snd (last ((t0, v0) # rest))"
    unfolding d2 by simp
  from gate_intervals d1 d2 d3 d4 show ?thesis by blast
qed

theorem throttled_window_witness:
  "delivered
     (calls [(1000, js ''H''), (1100, js ''Ha''), (1499, js ''Hai'')]
        throttledSetSuggestionInputPlaceholder) = [(1000, js ''H'')]
   \<and> delivered
        (settle (calls [(1000, js ''H''), (1100, js ''Ha''), (1499, js ''Hai'')]
           throttledSetSuggestionInputPlaceholder)) = [(1000, js ''H''), (1500, js ''Hai'')]
   \<and> delivered
        (settle (calls [(0, js ''9px''), (119, js ''18px'')] throttledSetFakeSpanDomWidth))
       = [(0, js ''9px''), (120, js ''18px'')]
   \<and> delivered (settle (calls [(7, js ''H'')] throttledSetServiceSearchInputValue))
       = [(7, js ''H'')]"
proof -
  have s1: "sorted (map fst [(1000::nat, js ''H''), (1100, js ''Ha''), (1499, js ''Hai'')])"
    by simp
  have w1: "\<forall>c\<in>set [(1100::nat, js ''Ha''), (1499, js ''Hai'')].
              fst c < 1000 + interval throttledSetSuggestionInputPlaceholder"
    by (simp add: gate_intervals)
  have s2: "sorted (map fst [(0::nat, js ''9px''), (119, js ''18px'')])"
    by simp
  have w2: "\<forall>c\<in>set [(119::nat, js ''18px'')]. fst c < 0 + interval throttledSetFakeSpanDomWidth"
    by (simp add: gate_intervals)
  have s3: "sorted (map fst [(7::nat, js ''H'')])"
    by simp
  have w3: "\<forall>c\<in>set ([] :: (nat \<times> jsstring) list).
              fst c < 7 + interval throttledSetServiceSearchInputValue"
    by simp
  have a: "delivered
     (calls [(1000, js ''H''), (1100, js ''Ha''), (1499, js ''Hai'')]
        throttledSetSuggestionInputPlaceholder) = [(1000, js ''H'')]"
    and b: "delivered
        (settle (calls [(1000, js ''H''), (1100, js ''Ha''), (1499, js ''Hai'')]
           throttledSetSuggestionInputPlaceholder)) = [(1000, js ''H''), (1500, js ''Hai'')]"
    using throttled_window [OF _ s1 w1, of 0] by (simp_all add: gate_intervals)
  have c: "delivered
        (settle (calls [(0, js ''9px''), (119, js ''18px'')] throttledSetFakeSpanDomWidth))
       = [(0, js ''9px''), (120, js ''18px'')]"
    using throttled_window [OF _ s2 w2, of 0] by (simp add: gate_intervals)
  have d: "delivered (settle (calls [(7, js ''H'')] throttledSetServiceSearchInputValue))
       = [(7, js ''H'')]"
    using throttled_window [OF _ s3 w3, of 0] by simp
  from a b c d show ?thesis by blast
qed


section \<open>The committed suggestion\<close>

lemma settle_call_last:
  "delivered (settle (call t v g)) \<noteq> [] \<and> snd (last (delivered (settle (call t v g)))) = v"
  by (simp add: call_def elapse_def settle_def Let_def split: option.splits prod.splits)

lemma committed_last:
  "suggestionInputPlaceholder (committed g st) =
     (if delivered g = [] then suggestionInputPlaceholder st else snd (last (delivered g)))"
proof -
  have h: "suggestionInputPlaceholder
             (fold (\<lambda>d s. s\<lparr>suggestionInputPlaceholder := snd d\<rparr>) ds st) =
     (if ds = [] then suggestionInputPlaceholder st else snd (last ds))"
    for ds :: "(nat \<times> jsstring) list"
    by (induction ds arbitrary: st) simp_all
  show ?thesis unfolding committed_def by (rule h)
qed

lemma trim_nonempty: "trim q \<noteq> [] \<Longrightarrow> q \<noteq> []"
  by (auto simp: trim_def trimStart_def trimEnd_def)

lemma newPlaceholder_settled:
  "newPlaceholder (filterEffect st) =
     (if prefix (serviceSearchInputValue st) (firstSearchItemText (filterEffect st))
         \<and> serviceSearchInputValue st \<noteq> js ''''
      then firstSearchItemText (filterEffect st) else js '''')"
proof (cases "trim (serviceSearchInputValue st) = []")
  case True
  then have "filteredServices (filterEffect st) = []"
    by (simp add: filterEffect_filtered)
  then have "firstSearchItemText (filterEffect st) = []"
    by (rule firstSearchItemText_Nil)
  then show ?thesis by (simp add: newPlaceholder_def)
next
  case False
  then have "serviceSearchInputValue st \<noteq> []"
    by (rule trim_nonempty)
  then show ?thesis
    by (simp add: newPlaceholder_def isInputValueSubstrin_prefix)
qed

text \<open>
  C3. Let the filtered list be the one computed for the query \<open>Q\<close>, let \<open>F\<close> be the
  name of its first item (\<open>""\<close> when it is empty), and let the suggestion effect run on
  that state, at any time and whatever its gate has seen before. Once the gate has
  settled, the committed suggestion is \<open>F\<close> when \<open>F\<close> starts with \<open>Q\<close> as a literal
  prefix and \<open>Q\<close> is non-empty, and \<open>""\<close> in every other case. For a non-empty \<open>F\<close>
  the suggestion equals \<open>F\<close> if and only if \<open>F\<close> starts with \<open>Q\<close> and \<open>Q\<close> is
  non-empty.
\<close>

theorem committed_suggestion:
  "suggestionInputPlaceholder
     (committed (settle (suggestionEffect t (filterEffect st) g)) (filterEffect st)) =
     (if prefix (serviceSearchInputValue st) (firstSearchItemText (filterEffect st))
         \<and> serviceSearchInputValue st \<noteq> js ''''
      then firstSearchItemText (filterEffect st) else js '''')
   \<and> (firstSearchItemText (filterEffect st) \<noteq> js '''' \<longrightarrow>
        (suggestionInputPlaceholder
           (committed (settle (suggestionEffect t (filterEffect st) g)) (filterEffect st))
           = firstSearchItemText (filterEffect st)
         \<longleftrightarrow> prefix (serviceSearchInputValue st) (firstSearchItemText (filterEffect st))
              \<and> serviceSearchInputValue st \<noteq> js ''''))"
proof -
  have "suggestionInputPlaceholder
     (committed (settle (suggestionEffect t (filterEffect st) g)) (filterEffect st)) =
     newPlaceholder (filterEffect st)"
    using settle_call_last [of t "newPlaceholder (filterEffect st)" g]
    by (simp add: committed_last suggestionEffect_def)
  then show ?thesis
    by (simp add: newPlaceholder_settled)
qed

theorem committed_suggestion_witness:
  "firstSearchItemText (filterEffect (stateOf ''Hair'' [haircut, hairdye] [] ''42px'' ''''))
     = js ''Haircut''
   \<and> suggestionInputPlaceholder
        (committed
           (settle
              (suggestionEffect 1000
                 (filterEffect (stateOf ''Hair'' [haircut, hairdye] [] ''42px'' ''''))
                 throttledSetSuggestionInputPlaceholder))
           (filterEffect (stateOf ''Hair'' [haircut, hairdye] [] ''42px'' ''''))) = js ''Haircut''
   \<and> delivered
        (suggestionEffect 1000
           (stateOf '''' [haircut, hairdye] [haircut, hairdye] ''0px'' ''Haircut'')
           throttledSetSuggestionInputPlaceholder) = [(1000, js ''Haircut'')]
   \<and> suggestionInputPlaceholder
        (committed
           (settle
              (suggestionEffect 1001
                 (filterEffect
                    (stateOf '''' [haircut, hairdye] [haircut, hairdye] ''0px'' ''Haircut''))
                 (suggestionEffect 1000
                    (stateOf '''' [haircut, hairdye] [haircut, hairdye] ''0px'' ''Haircut'')
                    throttledSetSuggestionInputPlaceholder)))
           (filterEffect
              (stateOf '''' [haircut, hairdye] [haircut, hairdye] ''0px'' ''Haircut''))) = js ''''"
proof -
  have f1: "firstSearchItemText
              (filterEffect (stateOf ''Hair'' [haircut, hairdye] [] ''42px'' ''''))
            = js ''Haircut''"
    by (simp add: firstSearchItemText_def filterEffect_def stateOf_def haircut_def hairdye_def
          js_def trim_def trimStart_def trimEnd_def isWhiteSpace_def
          includes_str_def StringIndexOf_def)
  have q1: "serviceSearchInputValue (stateOf ''Hair'' [haircut, hairdye] [] ''42px'' '''')
            = js ''Hair''"
    by (simp add: stateOf_def)
  have p1: "prefix (js ''Hair'') (js ''Haircut'')" "js ''Hair'' \<noteq> js ''''"
    by (simp_all add: js_def)
  have a: "suggestionInputPlaceholder
        (committed
           (settle
              (suggestionEffect 1000
                 (filterEffect (stateOf ''Hair'' [haircut, hairdye] [] ''42px'' ''''))
                 throttledSetSuggestionInputPlaceholder))
           (filterEffect (stateOf ''Hair'' [haircut, hairdye] [] ''42px'' ''''))) = js ''Haircut''"
    using committed_suggestion
            [of 1000 "stateOf ''Hair'' [haircut, hairdye] [] ''42px'' ''''"
                throttledSetSuggestionInputPlaceholder] p1
    by (simp only: f1 q1 if_True simp_thms)
  have b: "delivered
        (suggestionEffect 1000
           (stateOf '''' [haircut, hairdye] [haircut, hairdye] ''0px'' ''Haircut'')
           throttledSetSuggestionInputPlaceholder) = [(1000, js ''Haircut'')]"
    by (simp add: suggestionEffect_def call_def elapse_def
          throttledSetSuggestionInputPlaceholder_def newGate_def
          newPlaceholder_def isInputValueSubstrin_prefix firstSearchItemText_def
          stateOf_def haircut_def js_def)
  have q2: "serviceSearchInputValue
              (stateOf '''' [haircut, hairdye] [haircut, hairdye] ''0px'' ''Haircut'') = js ''''"
    by (simp add: stateOf_def)
  have c: "suggestionInputPlaceholder
        (committed
           (settle
              (suggestionEffect 1001
                 (filterEffect
                    (stateOf '''' [haircut, hairdye] [haircut, hairdye] ''0px'' ''Haircut''))
                 (suggestionEffect 1000
                    (stateOf '''' [haircut, hairdye] [haircut, hairdye] ''0px'' ''Haircut'')
                    throttledSetSuggestionInputPlaceholder)))
           (filterEffect
              (stateOf '''' [haircut, hairdye] [haircut, hairdye] ''0px'' ''Haircut''))) = js ''''"
    using committed_suggestion
            [of 1001 "stateOf '''' [haircut, hairdye] [haircut, hairdye] ''0px'' ''Haircut''"
                "suggestionEffect 1000
                    (stateOf '''' [haircut, hairdye] [haircut, hairdye] ''0px'' ''Haircut'')
                    throttledSetSuggestionInputPlaceholder"]
    by (simp only: q2 simp_thms if_False)
  from f1 a b c show ?thesis by blast
qed

end
